theory Spec2Isabelle
  imports Main "HOL-Library.Char_ord" "HOL-Library.List_Lexorder" "HOL-Library.Product_Lexorder"
    "HOL-Library.Sublist"
begin

section \<open>Python values, errors and dictionaries\<close>

text \<open>
  A cell is what pandas hands to the code for one spreadsheet or query cell. A blank cell
  is the float NaN; Python compares the elements of tuples by identity first and only then
  by \<open>==\<close>, so two NaN objects are equal exactly when they are the same object: \<open>NaN i\<close>
  carries the identity \<open>i\<close> of the object, and HOL equality on cells is then Python's
  element comparison. \<open>PyNone\<close> is \<open>None\<close> (a missing dictionary key read with
  \<open>.get\<close>, or a NaN replaced by \<open>None\<close>). Numbers are integers: floating point
  is outside the model.
\<close>

datatype cell = NaN nat | PyNone | Str string | Num int

text \<open>Python's truth value: NaN is a non-zero float, hence true.\<close>

fun truthy :: "cell \<Rightarrow> bool" where
  "truthy (NaN _) = True"
| "truthy PyNone = False"
| "truthy (Str s) = (s \<noteq> [])"
| "truthy (Num n) = (n \<noteq> 0)"

datatype error =
    KeyError string
  | ValueError
  | TypeError
  | FileNotFoundError
  | FileExistsError
  | NotADirectoryError
  | IsADirectoryError
  | External nat

text \<open>
  A Python \<open>dict\<close> is an association list in insertion order with pairwise distinct
  keys. Storing under a key that is present keeps the key's position and replaces the value;
  a new key goes to the end.
\<close>

type_synonym ('k, 'v) dict = "('k \<times> 'v) list"

fun dict_set :: "('k, 'v) dict \<Rightarrow> 'k \<Rightarrow> 'v \<Rightarrow> ('k, 'v) dict" where
  "dict_set [] k v = [(k, v)]"
| "dict_set ((k', v') # d) k v =
     (if k' = k then (k', v) # d else (k', v') # dict_set d k v)"

text \<open>\<open>dict(pairs)\<close> and a dict comprehension: the pairs are stored one after the other.\<close>

definition dict_of_pairs :: "('k \<times> 'v) list \<Rightarrow> ('k, 'v) dict" where
  "dict_of_pairs ps = foldl (\<lambda>d (k, v). dict_set d k v) [] ps"

text \<open>\<open>d[k]\<close> raises KeyError on a missing key; \<open>d.get(k)\<close> returns \<open>None\<close>.\<close>

definition dict_item :: "(string, 'v) dict \<Rightarrow> string \<Rightarrow> error + 'v" where
  "dict_item d k = (case map_of d k of None \<Rightarrow> Inl (KeyError k) | Some v \<Rightarrow> Inr v)"

definition dict_get :: "(string, cell) dict \<Rightarrow> string \<Rightarrow> cell" where
  "dict_get d k = (case map_of d k of None \<Rightarrow> PyNone | Some v \<Rightarrow> v)"

section \<open>component/rollback.py: \<open>_ClassifierSet\<close>\<close>

text \<open>
  \<open>sorted(self.items())\<close> sorts the (name, value) tuples. The names are the keys of a
  dict, so no two tuples share a name and every tuple comparison is decided by the names:
  the values are never compared. The sort is the stable insertion sort on the name.
\<close>

definition sorted_items :: "(string, cell) dict \<Rightarrow> (string \<times> cell) list" where
  "sorted_items d = sort_key fst d"

definition cs_eq :: "(string, cell) dict \<Rightarrow> (string, cell) dict \<Rightarrow> bool" where
  "cs_eq self other = (sorted_items self = sorted_items other)"

text \<open>
  \<open>hash(tuple(...))\<close>: the interpreter's hash of a tuple is a function of its elements;
  it is the parameter \<open>h\<close>.
\<close>

definition cs_hash :: "((string \<times> cell) list \<Rightarrow> int) \<Rightarrow> (string, cell) dict \<Rightarrow> int" where
  "cs_hash h self = h (sorted_items self)"

text \<open>A dict finds a stored key for a looked-up key when the hashes agree and \<open>__eq__\<close> holds.\<close>

definition key_match ::
  "((string \<times> cell) list \<Rightarrow> int) \<Rightarrow> (string, cell) dict \<Rightarrow> (string, cell) dict \<Rightarrow> bool" where
  "key_match h stored key = (cs_hash h stored = cs_hash h key \<and> cs_eq stored key)"

section \<open>component/rollback.py: \<open>_AgeDistribution\<close>\<close>

record 'p age_distribution =
  disturbance_types :: "cell list option"
  distributions :: "((string, cell) dict \<times> (int, 'p) dict) list"

definition AgeDistribution :: "cell list option \<Rightarrow> 'p age_distribution" where
  "AgeDistribution dist_types = \<lparr>disturbance_types = dist_types, distributions = []\<rparr>"

text \<open>
  \<open>self.distributions[classifier_set][age] = proportion\<close> on a \<open>defaultdict(dict)\<close>:
  the first stored key that matches gets the age written into its dict; without a match a
  new entry with a fresh dict is appended.
\<close>

fun distributions_put ::
  "((string \<times> cell) list \<Rightarrow> int) \<Rightarrow> ((string, cell) dict \<times> (int, 'p) dict) list \<Rightarrow>
   (string, cell) dict \<Rightarrow> int \<Rightarrow> 'p \<Rightarrow> ((string, cell) dict \<times> (int, 'p) dict) list" where
  "distributions_put h [] cs age proportion = [(cs, [(age, proportion)])]"
| "distributions_put h ((k, props) # d) cs age proportion =
     (if key_match h k cs then (k, dict_set props age proportion) # d
      else (k, props) # distributions_put h d cs age proportion)"

text \<open>\<open>classifier_set or {}\<close>: an absent or empty argument is the empty dict.\<close>

definition classifier_set_or_empty :: "(string, cell) dict option \<Rightarrow> (string, cell) dict" where
  "classifier_set_or_empty classifier_set =
     (case classifier_set of None \<Rightarrow> [] | Some c \<Rightarrow> if c = [] then [] else c)"

definition add ::
  "((string \<times> cell) list \<Rightarrow> int) \<Rightarrow> 'p age_distribution \<Rightarrow> int \<Rightarrow> 'p \<Rightarrow>
   (string, cell) dict option \<Rightarrow> 'p age_distribution" where
  "add h self age proportion classifier_set =
     self\<lparr>distributions :=
       distributions_put h (distributions self) (classifier_set_or_empty classifier_set)
         age proportion\<rparr>"

text \<open>\<open>self.distributions[classifier_set]\<close> read back: the dict of the first matching key.\<close>

definition distributions_get ::
  "((string \<times> cell) list \<Rightarrow> int) \<Rightarrow> ((string, cell) dict \<times> (int, 'p) dict) list \<Rightarrow>
   (string, cell) dict \<Rightarrow> (int, 'p) dict option" where
  "distributions_get h d cs = map_option snd (find (\<lambda>e. key_match h (fst e) cs) d)"

text \<open>No two stored keys match one looked-up key (an invariant of the dict).\<close>

definition keys_unique :: "((string \<times> cell) list \<Rightarrow> int) \<Rightarrow> (string, cell) dict list \<Rightarrow> bool" where
  "keys_unique h ks = (\<forall>c. length (filter (\<lambda>k. key_match h k c) ks) \<le> 1)"

text \<open>
  The JSON object of one distribution: a dict from field name to a list of cells or to the
  list of \<open>[age, proportion]\<close> pairs. \<open>sorted(proportions.items())\<close> sorts tuples whose
  ages are pairwise distinct (they are dict keys), so the proportions are never compared.
\<close>

datatype 'p json_field = JList "cell list" | JPairs "(int \<times> 'p) list"

definition distribution_json ::
  "cell list option \<Rightarrow> (string, cell) dict \<times> (int, 'p) dict \<Rightarrow> (string, 'p json_field) dict" where
  "distribution_json dist_types entry =
     (let classifier_set = fst entry; proportions = snd entry;
          d0 = (case dist_types of
                  None \<Rightarrow> []
                | Some ts \<Rightarrow> if ts = [] then [] else dict_set [] ''disturbance_type'' (JList ts));
          d1 = (if classifier_set \<noteq> []
                then foldl (\<lambda>d (k, v). dict_set d k (JList [v])) d0 classifier_set
                else d0)
      in dict_set d1 ''distribution'' (JPairs (sort_key fst proportions)))"

definition to_json :: "'p age_distribution \<Rightarrow> (string, 'p json_field) dict list" where
  "to_json self = map (distribution_json (disturbance_types self)) (distributions self)"

text \<open>A distribution built by a sequence of \<open>add\<close> calls on a fresh object.\<close>

definition add_all ::
  "((string \<times> cell) list \<Rightarrow> int) \<Rightarrow> 'p age_distribution \<Rightarrow>
   (int \<times> 'p \<times> (string, cell) dict option) list \<Rightarrow> 'p age_distribution" where
  "add_all h self calls = foldl (\<lambda>d (age, proportion, cs). add h d age proportion cs) self calls"

section \<open>converter/projectconverter.py: \<open>_flatten_pivot_columns\<close>\<close>

text \<open>
  A column label is a string (a column or classifier name) or an integer (an age). The
  columns of a pivoted frame carry two levels: the outer label and the inner label. The
  method rewrites \<open>pivot_data.columns\<close> in place, index by index; the model returns the
  new labels.
\<close>

datatype label = LStr string | LInt int

definition get_level_values :: "(label \<times> label) list \<Rightarrow> nat \<Rightarrow> label list" where
  "get_level_values cols level = map (if level = 0 then fst else snd) cols"

definition flatten_pivot_columns :: "(label \<times> label) list \<Rightarrow> label list" where
  "flatten_pivot_columns cols =
     map (\<lambda>i. if get_level_values cols 1 ! i \<noteq> LStr ''''
              then get_level_values cols 1 ! i
              else get_level_values cols 0 ! i)
         [0..<length cols]"

section \<open>Files\<close>

text \<open>
  The file system maps a path (its components) to a directory or to a file with its
  content; the root \<open>[]\<close> is a directory. \<open>open(path, "w")\<close> creates or truncates the
  file when the parent directory exists, and the content written is stored with it.
\<close>

type_synonym path = "string list"

datatype content =
    Json "(string, cell json_field) dict list"
  | Csv "label list" "cell list list"
  | Opaque nat

datatype node = Dir | File content

type_synonym fs = "path \<Rightarrow> node option"

definition is_dir :: "fs \<Rightarrow> path \<Rightarrow> bool" where
  "is_dir fs p = (p = [] \<or> fs p = Some Dir)"

definition open_w :: "fs \<Rightarrow> path \<Rightarrow> content \<Rightarrow> error + fs" where
  "open_w fs p c =
     (if is_dir fs p then Inl IsADirectoryError
      else if is_dir fs (butlast p) then Inr (fs(p \<mapsto> File c))
      else if fs (butlast p) = None then Inl FileNotFoundError
      else Inl NotADirectoryError)"

section \<open>component/rollback.py: \<open>Rollback._convert_age_distribution\<close>\<close>

text \<open>
  A sheet read by \<open>pd.read_excel\<close> is a frame: its column names and its data rows. A
  workbook holds its sheets by name; reading a sheet that does not exist raises. Of a
  classifier object the code reads the \<open>name\<close> only.
\<close>

record classifier =
  name :: string

record sheet =
  columns :: "string list"
  rows :: "cell list list"

type_synonym workbook = "(string \<times> sheet) list"

definition read_excel :: "workbook \<Rightarrow> string \<Rightarrow> error + sheet" where
  "read_excel wb sheet_name =
     (case map_of wb sheet_name of None \<Rightarrow> Inl ValueError | Some s \<Rightarrow> Inr s)"

text \<open>\<open>root_sheet.replace([np.nan], [None]).to_dict()\<close>: per column, its cells in row order.\<close>

definition replace_nan :: "cell \<Rightarrow> cell" where
  "replace_nan c = (case c of NaN _ \<Rightarrow> PyNone | _ \<Rightarrow> c)"

definition column_values :: "sheet \<Rightarrow> nat \<Rightarrow> cell list" where
  "column_values s j = map (\<lambda>r. if j < length r then r ! j else NaN 0) (rows s)"

definition to_dict :: "sheet \<Rightarrow> (string, cell list) dict" where
  "to_dict s =
     dict_of_pairs (map (\<lambda>j. (columns s ! j, map replace_nan (column_values s j)))
                        [0..<length (columns s)])"

definition distribution_sheets :: "sheet \<Rightarrow> (string, cell list) dict" where
  "distribution_sheets root_sheet =
     dict_of_pairs (map (\<lambda>(sheet, dist_types). (sheet, filter truthy dist_types))
                        (to_dict root_sheet))"

text \<open>
  The classifier set of a row: \<open>{c.name: row_data.get(c.name) for c in classifiers if
  row_data.get(c.name)}\<close>.
\<close>

definition row_classifier_set :: "classifier list \<Rightarrow> (string, cell) dict \<Rightarrow> (string, cell) dict" where
  "row_classifier_set classifiers row_data =
     dict_of_pairs
       (map (\<lambda>c. (name c, dict_get row_data (name c)))
            (filter (\<lambda>c. truthy (dict_get row_data (name c))) classifiers))"

text \<open>
  \<open>int(x)\<close>: an integer is itself, NaN raises ValueError, \<open>None\<close> raises TypeError and a
  string is parsed by the interpreter (the parameter \<open>parse\<close>) or raises ValueError.
\<close>

definition py_int :: "(string \<Rightarrow> int option) \<Rightarrow> cell \<Rightarrow> error + int" where
  "py_int parse c =
     (case c of
        Num n \<Rightarrow> Inr n
      | Str s \<Rightarrow> (case parse s of None \<Rightarrow> Inl ValueError | Some n \<Rightarrow> Inr n)
      | NaN _ \<Rightarrow> Inl ValueError
      | PyNone \<Rightarrow> Inl TypeError)"

text \<open>The body of the loop over the rows of one sheet.\<close>

definition add_row ::
  "((string \<times> cell) list \<Rightarrow> int) \<Rightarrow> (string \<Rightarrow> int option) \<Rightarrow> classifier list \<Rightarrow> string list \<Rightarrow>
   cell age_distribution \<Rightarrow> cell list \<Rightarrow> error + cell age_distribution" where
  "add_row h parse classifiers cols distribution row =
     (let row_data = dict_of_pairs (zip cols row);
          classifier_set = row_classifier_set classifiers row_data
      in case dict_item row_data ''min_age'' of
           Inl e \<Rightarrow> Inl e
         | Inr a \<Rightarrow>
            (case py_int parse a of
               Inl e \<Rightarrow> Inl e
             | Inr age \<Rightarrow>
                (case dict_item row_data ''proportion'' of
                   Inl e \<Rightarrow> Inl e
                 | Inr proportion \<Rightarrow>
                     Inr (add h distribution age proportion (Some classifier_set)))))"

fun add_rows ::
  "((string \<times> cell) list \<Rightarrow> int) \<Rightarrow> (string \<Rightarrow> int option) \<Rightarrow> classifier list \<Rightarrow> string list \<Rightarrow>
   cell age_distribution \<Rightarrow> cell list list \<Rightarrow> error + cell age_distribution" where
  "add_rows h parse classifiers cols distribution [] = Inr distribution"
| "add_rows h parse classifiers cols distribution (row # rest) =
     (case add_row h parse classifiers cols distribution row of
        Inl e \<Rightarrow> Inl e
      | Inr distribution' \<Rightarrow> add_rows h parse classifiers cols distribution' rest)"

text \<open>The loop over the distribution sheets, extending \<open>age_distributions\<close>.\<close>

fun convert_sheets ::
  "((string \<times> cell) list \<Rightarrow> int) \<Rightarrow> (string \<Rightarrow> int option) \<Rightarrow> classifier list \<Rightarrow> workbook \<Rightarrow>
   (string \<times> cell list) list \<Rightarrow> (string, cell json_field) dict list \<Rightarrow>
   error + (string, cell json_field) dict list" where
  "convert_sheets h parse classifiers wb [] age_distributions = Inr age_distributions"
| "convert_sheets h parse classifiers wb ((sheet_name, dist_types) # rest) age_distributions =
     (case read_excel wb sheet_name of
        Inl e \<Rightarrow> Inl e
      | Inr distribution_sheet \<Rightarrow>
         (case add_rows h parse classifiers (columns distribution_sheet)
                 (AgeDistribution (Some dist_types)) (rows distribution_sheet) of
            Inl e \<Rightarrow> Inl e
          | Inr distribution \<Rightarrow>
              convert_sheets h parse classifiers wb rest
                (age_distributions @ to_json distribution)))"

text \<open>
  The method: the raised error, if any, and the file system it leaves. The only write is
  the final \<open>json.dump(age_distributions, open(output_path, "w"))\<close>.
\<close>

definition convert_age_distribution ::
  "((string \<times> cell) list \<Rightarrow> int) \<Rightarrow> (string \<Rightarrow> int option) \<Rightarrow> workbook \<Rightarrow> classifier list \<Rightarrow>
   path \<Rightarrow> fs \<Rightarrow> error option \<times> fs" where
  "convert_age_distribution h parse age_distribution classifiers output_path fs =
     (case read_excel age_distribution ''age_distribution'' of
        Inl e \<Rightarrow> (Some e, fs)
      | Inr root_sheet \<Rightarrow>
         (case convert_sheets h parse classifiers age_distribution
                 (distribution_sheets root_sheet) [] of
            Inl e \<Rightarrow> (Some e, fs)
          | Inr age_distributions \<Rightarrow>
             (case open_w fs output_path (Json age_distributions) of
                Inl e \<Rightarrow> (Some e, fs)
              | Inr fs' \<Rightarrow> (None, fs'))))"

section \<open>application/walltowall.py: \<open>merge\<close>\<close>

text \<open>
  Of a prepared project the function reads the path and the two years. The engines it
  calls are not part of this module; they are the fields of \<open>collaborators\<close>, each a
  function on the world \<open>'w\<close> (the file system and whatever else it touches) that returns
  its result or the exception it raises, and the world it leaves.
\<close>

record prepared_project =
  project_path :: path
  start_year :: int
  end_year :: int

record merge_args =
  config_path :: path
  project_paths :: "path list"
  output_path :: path
  include_index_layer :: bool

record ('w, 'inv, 'md, 'cfg) collaborators =
  temporary_directory :: "'w \<Rightarrow> path \<times> 'w"
  cleanup :: "path \<Rightarrow> 'w \<Rightarrow> 'w"
  PreparedProject :: "path \<Rightarrow> 'w \<Rightarrow> error + prepared_project"
  prepare_merge :: "prepared_project \<Rightarrow> path \<Rightarrow> nat \<Rightarrow> 'w \<Rightarrow> (error + 'inv) \<times> 'w"
  virtual_memory_available :: "'w \<Rightarrow> nat"
  gcbm_merge :: "'inv list \<Rightarrow> path \<Rightarrow> path \<Rightarrow> int \<Rightarrow> nat \<Rightarrow> 'w \<Rightarrow> (error + 'md) \<times> 'w"
  gcbm_merge_tile :: "path \<Rightarrow> 'md \<Rightarrow> 'inv list \<Rightarrow> bool \<Rightarrow> 'w \<Rightarrow> error option \<times> 'w"
  replace_direct_attached_transition_rules :: "path \<Rightarrow> path \<Rightarrow> 'w \<Rightarrow> error option \<times> 'w"
  Configuration_load :: "path \<Rightarrow> path \<Rightarrow> 'w \<Rightarrow> error + 'cfg"
  configure :: "path list \<Rightarrow> 'cfg \<Rightarrow> path \<Rightarrow> path \<Rightarrow> int \<Rightarrow> int \<Rightarrow> 'w \<Rightarrow> error option \<times> 'w"

text \<open>\<open>min\<close> and \<open>max\<close> of a generator raise ValueError when it yields nothing.\<close>

definition py_min :: "int list \<Rightarrow> error + int" where
  "py_min xs = (case xs of [] \<Rightarrow> Inl ValueError | x # rest \<Rightarrow> Inr (foldl min x rest))"

definition py_max :: "int list \<Rightarrow> error + int" where
  "py_max xs = (case xs of [] \<Rightarrow> Inl ValueError | x # rest \<Rightarrow> Inr (foldl max x rest))"

text \<open>\<open>[PreparedProject(path) for path in args.project_paths]\<close>\<close>

fun construct_projects ::
  "(path \<Rightarrow> 'w \<Rightarrow> error + prepared_project) \<Rightarrow> path list \<Rightarrow> 'w \<Rightarrow> error + prepared_project list" where
  "construct_projects mk [] w = Inr []"
| "construct_projects mk (p # ps) w =
     (case mk p w of
        Inl e \<Rightarrow> Inl e
      | Inr project \<Rightarrow>
         (case construct_projects mk ps w of
            Inl e \<Rightarrow> Inl e
          | Inr projects \<Rightarrow> Inr (project # projects)))"

text \<open>\<open>[project.prepare_merge(tmp, i) for i, project in enumerate(projects)]\<close>\<close>

fun prepare_all ::
  "(prepared_project \<Rightarrow> path \<Rightarrow> nat \<Rightarrow> 'w \<Rightarrow> (error + 'inv) \<times> 'w) \<Rightarrow> prepared_project list \<Rightarrow>
   path \<Rightarrow> nat \<Rightarrow> 'w \<Rightarrow> (error + 'inv list) \<times> 'w" where
  "prepare_all prep [] tmp i w = (Inr [], w)"
| "prepare_all prep (project # projects) tmp i w =
     (case prep project tmp i w of
        (Inl e, w1) \<Rightarrow> (Inl e, w1)
      | (Inr inventory, w1) \<Rightarrow>
         (case prepare_all prep projects tmp (Suc i) w1 of
            (Inl e, w2) \<Rightarrow> (Inl e, w2)
          | (Inr inventories, w2) \<Rightarrow> (Inr (inventory # inventories), w2)))"

text \<open>
  The body of the \<open>with TemporaryDirectory() as tmp\<close> block: the exception raised, if any,
  and the world it leaves. An exception of any call ends the body there.
  \<open>available * 0.75 // 1024**2\<close> is computed on integers.
\<close>

definition merge_body ::
  "('w, 'inv, 'md, 'cfg) collaborators \<Rightarrow> merge_args \<Rightarrow> path \<Rightarrow> 'w \<Rightarrow> error option \<times> 'w" where
  "merge_body c args tmp w =
     (case construct_projects (PreparedProject c) (project_paths args) w of
        Inl e \<Rightarrow> (Some e, w)
      | Inr projects \<Rightarrow>
     (case prepare_all (prepare_merge c) projects tmp 0 w of
        (Inl e, w1) \<Rightarrow> (Some e, w1)
      | (Inr inventories, w1) \<Rightarrow>
     (let merged_output_path = output_path args @ [''layers'', ''merged''];
          tiled_output_path = output_path args @ [''layers'', ''tiled''];
          db_output_path = output_path args @ [''input_database'']
      in
     (case py_min (map start_year projects) of
        Inl e \<Rightarrow> (Some e, w1)
      | Inr merged_start_year \<Rightarrow>
     (case py_max (map end_year projects) of
        Inl e \<Rightarrow> (Some e, w1)
      | Inr merged_end_year \<Rightarrow>
     (let memory_limit = (virtual_memory_available c w1 * 3) div (4 * 1024 ^ 2)
      in
     (case gcbm_merge c inventories merged_output_path db_output_path merged_start_year
             memory_limit w1 of
        (Inl e, w2) \<Rightarrow> (Some e, w2)
      | (Inr merged_data, w2) \<Rightarrow>
     (case gcbm_merge_tile c tiled_output_path merged_data inventories
             (include_index_layer args) w2 of
        (Some e, w3) \<Rightarrow> (Some e, w3)
      | (None, w3) \<Rightarrow>
     (case replace_direct_attached_transition_rules c (db_output_path @ [''gcbm_input.db''])
             (tiled_output_path @ [''transition_rules.csv'']) w3 of
        (Some e, w4) \<Rightarrow> (Some e, w4)
      | (None, w4) \<Rightarrow>
     (case Configuration_load c (config_path args) (output_path args) w4 of
        Inl e \<Rightarrow> (Some e, w4)
      | Inr config \<Rightarrow>
          configure c [tiled_output_path] config (db_output_path @ [''gcbm_input.db''])
            (output_path args @ [''gcbm_project'']) merged_start_year merged_end_year
            w4))))))))))"

text \<open>The function: the temporary directory is created first and removed on every exit.\<close>

definition merge ::
  "('w, 'inv, 'md, 'cfg) collaborators \<Rightarrow> merge_args \<Rightarrow> 'w \<Rightarrow> error option \<times> 'w" where
  "merge c args w =
     (case temporary_directory c w of
        (tmp, w0) \<Rightarrow>
          (case merge_body c args tmp w0 of
             (r, w') \<Rightarrow> (r, cleanup c tmp w')))"

text \<open>
  To observe which engines a run of \<open>merge\<close> calls, the collaborators are wrapped: the
  world is paired with a trace, and each of the four stage engines, when it is called,
  appends its call to the trace, with the arguments of interest and whether it returned
  (\<open>True\<close>) or raised (\<open>False\<close>). The wrapped engines act on the world as the given
  ones do; \<open>merge\<close> itself never touches the trace.
\<close>

datatype stage = Merge | Tile | Patch | Configure

datatype call =
    MergeCall nat int nat
  | TileCall bool
  | PatchCall
  | ConfigureCall int int

fun stage_of :: "call \<Rightarrow> stage" where
  "stage_of (MergeCall _ _ _) = Merge"
| "stage_of (TileCall _) = Tile"
| "stage_of PatchCall = Patch"
| "stage_of (ConfigureCall _ _) = Configure"

definition traced ::
  "('w, 'inv, 'md, 'cfg) collaborators \<Rightarrow>
   ('w \<times> (call \<times> bool) list, 'inv, 'md, 'cfg) collaborators" where
  "traced c =
     \<lparr>temporary_directory =
        (\<lambda>(w, l). case temporary_directory c w of (tmp, w') \<Rightarrow> (tmp, (w', l))),
      cleanup = (\<lambda>tmp (w, l). (cleanup c tmp w, l)),
      PreparedProject = (\<lambda>p (w, l). PreparedProject c p w),
      prepare_merge =
        (\<lambda>project tmp i (w, l).
           case prepare_merge c project tmp i w of (r, w') \<Rightarrow> (r, (w', l))),
      virtual_memory_available = (\<lambda>(w, l). virtual_memory_available c w),
      gcbm_merge =
        (\<lambda>inventories merged db sy mem (w, l).
           case gcbm_merge c inventories merged db sy mem w of
             (r, w') \<Rightarrow> (r, (w', l @ [(MergeCall (length inventories) sy mem, \<not> isl r)]))),
      gcbm_merge_tile =
        (\<lambda>tiled merged_data inventories index_layer (w, l).
           case gcbm_merge_tile c tiled merged_data inventories index_layer w of
             (r, w') \<Rightarrow> (r, (w', l @ [(TileCall index_layer, r = None)]))),
      replace_direct_attached_transition_rules =
        (\<lambda>db rules (w, l).
           case replace_direct_attached_transition_rules c db rules w of
             (r, w') \<Rightarrow> (r, (w', l @ [(PatchCall, r = None)]))),
      Configuration_load = (\<lambda>cfg out (w, l). Configuration_load c cfg out w),
      configure =
        (\<lambda>layers config db out sy ey (w, l).
           case configure c layers config db out sy ey w of
             (r, w') \<Rightarrow> (r, (w', l @ [(ConfigureCall sy ey, r = None)])))\<rparr>"

text \<open>
  Collaborators for running \<open>merge\<close> on concrete inputs: the world is the list of the
  paths created so far, the prepared projects are looked up in a table, every engine
  succeeds and records the paths it was asked to write, and the tiling engine returns or
  raises as told.
\<close>

definition stub_collaborators ::
  "(path \<times> prepared_project) list \<Rightarrow> error option \<Rightarrow> (path list, nat, unit, unit) collaborators" where
  "stub_collaborators known tile_result =
     \<lparr>temporary_directory = (\<lambda>w. ([''tmp''], w @ [[''tmp'']])),
      cleanup = (\<lambda>tmp w. removeAll tmp w),
      PreparedProject =
        (\<lambda>p w. case map_of known p of None \<Rightarrow> Inl FileNotFoundError | Some project \<Rightarrow> Inr project),
      prepare_merge = (\<lambda>project tmp i w. (Inr i, w)),
      virtual_memory_available = (\<lambda>w. 8589934592),
      gcbm_merge = (\<lambda>inventories merged db sy mem w. (Inr (), w @ [merged, db])),
      gcbm_merge_tile =
        (\<lambda>tiled merged_data inventories index w.
           (tile_result, case tile_result of None \<Rightarrow> w @ [tiled] | Some e \<Rightarrow> w)),
      replace_direct_attached_transition_rules = (\<lambda>db rules w. (None, w)),
      Configuration_load = (\<lambda>cfg out w. Inr ()),
      configure = (\<lambda>layers config db out sy ey w. (None, w @ [out]))\<rparr>"

section \<open>converter/projectconverter.py: the input database and its queries\<close>

text \<open>
  The tables the queries read, with the columns they name. Identifiers, delays and ages
  are integers, names and values strings; a merchantable volume is an integer here
  (floating point is outside the model). \<open>species_id\<close> may be NULL.
\<close>

record growth_curve_component_row =
  gcc_id :: int
  gcc_growth_curve_id :: int
  gcc_species_id :: "int option"

record growth_curve_classifier_value_row =
  gccv_growth_curve_id :: int
  gccv_classifier_value_id :: int

record classifier_value_row =
  cv_id :: int
  cv_classifier_id :: int
  cv_value :: string

record classifier_row =
  c_id :: int
  c_name :: string

record species_row =
  s_id :: int
  s_name :: string

record growth_curve_component_value_row =
  gcv_growth_curve_component_id :: int
  gcv_age :: int
  gcv_merchantable_volume :: int

record transition_row =
  t_id :: int
  t_regen_delay :: int
  t_age :: int

record transition_classifier_value_row =
  tcv_transition_id :: int
  tcv_classifier_value_id :: int

record database =
  growth_curve_component :: "growth_curve_component_row list"
  growth_curve_classifier_value :: "growth_curve_classifier_value_row list"
  classifier_value :: "classifier_value_row list"
  classifier_table :: "classifier_row list"
  species :: "species_row list"
  growth_curve_component_value :: "growth_curve_component_value_row list"
  transition :: "transition_row list"
  transition_classifier_value :: "transition_classifier_value_row list"

text \<open>The four SELECT statements: every join is an INNER JOIN.\<close>

definition components_sql :: "database \<Rightarrow> (int \<times> string \<times> cell) list" where
  "components_sql db =
     [(gcc_id gcc, c_name c, Str (cv_value cv)).
        gcc \<leftarrow> growth_curve_component db,
        gccv \<leftarrow> growth_curve_classifier_value db,
        gcc_growth_curve_id gcc = gccv_growth_curve_id gccv,
        cv \<leftarrow> classifier_value db,
        gccv_classifier_value_id gccv = cv_id cv,
        c \<leftarrow> classifier_table db,
        cv_classifier_id cv = c_id c]"

definition species_sql :: "database \<Rightarrow> (int \<times> string) list" where
  "species_sql db =
     [(gcc_id gcc, s_name s).
        gcc \<leftarrow> growth_curve_component db,
        s \<leftarrow> species db,
        gcc_species_id gcc = Some (s_id s)]"

definition values_sql :: "database \<Rightarrow> (int \<times> int \<times> cell) list" where
  "values_sql db =
     [(gcc_id gcc, gcv_age gcv, Num (gcv_merchantable_volume gcv)).
        gcc \<leftarrow> growth_curve_component db,
        gcv \<leftarrow> growth_curve_component_value db,
        gcc_id gcc = gcv_growth_curve_component_id gcv]"

definition transitions_sql :: "database \<Rightarrow> ((int \<times> int \<times> int) \<times> string \<times> cell) list" where
  "transitions_sql db =
     [((t_id t, t_regen_delay t, t_age t), c_name c, Str (cv_value cv)).
        t \<leftarrow> transition db,
        tcv \<leftarrow> transition_classifier_value db,
        t_id t = tcv_transition_id tcv,
        cv \<leftarrow> classifier_value db,
        tcv_classifier_value_id tcv = cv_id cv,
        c \<leftarrow> classifier_table db,
        cv_classifier_id cv = c_id c]"

section \<open>converter/projectconverter.py: the pandas frames\<close>

text \<open>
  A frame: the names of its index levels, the index key of every row (one cell per level),
  the column labels and the data rows. A missing value is NaN.
\<close>

record 'c frame =
  index_names :: "string list"
  index :: "cell list list"
  labels :: "'c list"
  data :: "cell list list"

text \<open>
  \<open>DataFrame.pivot(index=..., columns=...)\<close> on the one remaining value column: one row
  per distinct index key and one column per distinct column key, both sorted, under the
  two-level labels (value column, column key); a cell holds the value of its (index,
  column) pair or NaN. Two rows with the same pair raise ValueError.
\<close>

definition pivot_cell :: "('i \<times> 'c \<times> cell) list \<Rightarrow> 'i \<Rightarrow> 'c \<Rightarrow> cell" where
  "pivot_cell recs i c =
     (case map_of (map (\<lambda>(i, c, v). ((i, c), v)) recs) (i, c) of
        None \<Rightarrow> NaN 0
      | Some v \<Rightarrow> v)"

definition pivot ::
  "string list \<Rightarrow> ('i \<Rightarrow> cell list) \<Rightarrow> string \<Rightarrow> ('c \<Rightarrow> label) \<Rightarrow>
   ('i::linorder \<times> 'c::linorder \<times> cell) list \<Rightarrow> error + (label \<times> label) frame" where
  "pivot names key_cells value_name lab recs =
     (if \<not> distinct (map (\<lambda>(i, c, v). (i, c)) recs) then Inl ValueError
      else
        (let idx = sort (remdups (map fst recs));
             cols = sort (remdups (map (\<lambda>(i, c, v). c) recs))
         in Inr \<lparr>index_names = names,
                 index = map key_cells idx,
                 labels = map (\<lambda>c. (LStr value_name, lab c)) cols,
                 data = map (\<lambda>i. map (pivot_cell recs i) cols) idx\<rparr>))"

text \<open>
  \<open>reset_index()\<close>: the index levels become the first columns, labelled by \<open>mk\<close> of
  their names, and the rows are numbered; inserting a label that exists raises ValueError.
\<close>

definition reset_index :: "(string \<Rightarrow> 'c) \<Rightarrow> 'c frame \<Rightarrow> error + 'c frame" where
  "reset_index mk f =
     (if list_ex (\<lambda>n. mk n \<in> set (labels f)) (index_names f) then Inl ValueError
      else Inr \<lparr>index_names = [],
                index = map (\<lambda>i. [Num (int i)]) [0..<length (index f)],
                labels = map mk (index_names f) @ labels f,
                data = map (\<lambda>(k, r). k @ r) (zip (index f) (data f))\<rparr>)"

text \<open>\<open>set_index(n)\<close> on two-level labels: the first column under the outer label \<open>n\<close>.\<close>

fun index_of :: "('a \<Rightarrow> bool) \<Rightarrow> 'a list \<Rightarrow> nat option" where
  "index_of P [] = None"
| "index_of P (x # xs) = (if P x then Some 0 else map_option Suc (index_of P xs))"

definition without :: "nat \<Rightarrow> 'a list \<Rightarrow> 'a list" where
  "without j xs = take j xs @ drop (Suc j) xs"

definition set_index :: "string \<Rightarrow> (label \<times> label) frame \<Rightarrow> error + (label \<times> label) frame" where
  "set_index n f =
     (case index_of (\<lambda>l. fst l = LStr n) (labels f) of
        None \<Rightarrow> Inl (KeyError n)
      | Some j \<Rightarrow>
          Inr \<lparr>index_names = [n],
               index = map (\<lambda>r. [r ! j]) (data f),
               labels = without j (labels f),
               data = map (without j) (data f)\<rparr>)"

text \<open>\<open>self._flatten_pivot_columns(frame)\<close>: the labels are replaced, the data stay.\<close>

definition flatten_frame :: "(label \<times> label) frame \<Rightarrow> label frame" where
  "flatten_frame f =
     \<lparr>index_names = index_names f, index = index f,
      labels = flatten_pivot_columns (labels f), data = data f\<rparr>"

text \<open>
  \<open>left.join(right)\<close>, a left join on the index: every row of \<open>left\<close> is kept, followed
  by the cells of each row of \<open>right\<close> with the same key, or by NaN cells when there is
  none. Overlapping column labels raise ValueError.
\<close>

definition join_rows ::
  "(cell list \<times> cell list) list \<Rightarrow> nat \<Rightarrow> cell list \<times> cell list \<Rightarrow> (cell list \<times> cell list) list" where
  "join_rows right width row =
     (case filter (\<lambda>r. fst r = fst row) right of
        [] \<Rightarrow> [(fst row, snd row @ replicate width (NaN 0))]
      | ms \<Rightarrow> map (\<lambda>r. (fst row, snd row @ snd r)) ms)"

definition join_frames :: "label frame \<Rightarrow> label frame \<Rightarrow> error + label frame" where
  "join_frames left right =
     (if list_ex (\<lambda>l. l \<in> set (labels right)) (labels left) then Inl ValueError
      else
        (let joined = concat (map (join_rows (zip (index right) (data right))
                                             (length (labels right)))
                                  (zip (index left) (data left)))
         in Inr \<lparr>index_names = index_names left,
                 index = map fst joined,
                 labels = labels left @ labels right,
                 data = map snd joined\<rparr>))"

text \<open>\<open>drop(n, axis=1)\<close>: the columns labelled \<open>n\<close> are removed; KeyError when there is none.\<close>

definition drop_column :: "string \<Rightarrow> label frame \<Rightarrow> error + label frame" where
  "drop_column n f =
     (if LStr n \<notin> set (labels f) then Inl (KeyError n)
      else
        (let keep = filter (\<lambda>j. labels f ! j \<noteq> LStr n) [0..<length (labels f)]
         in Inr \<lparr>index_names = index_names f,
                 index = index f,
                 labels = map (\<lambda>j. labels f ! j) keep,
                 data = map (\<lambda>r. map (\<lambda>j. r ! j) keep) (data f)\<rparr>))"

section \<open>converter/projectconverter.py: \<open>ProjectConverter\<close>\<close>

text \<open>
  Of the project the extraction reads whether a rollback ran and the database of either
  case; \<open>_input_db_connection\<close> selects the rollback database when there is one.
\<close>

record project =
  has_rollback :: bool
  rollback_db :: database
  input_db :: database

definition input_db_connection :: "project \<Rightarrow> database" where
  "input_db_connection p = (if has_rollback p then rollback_db p else input_db p)"

text \<open>The three frames of \<open>_convert_yields\<close>, in the order the method builds them.\<close>

definition components_frame :: "database \<Rightarrow> error + label frame" where
  "components_frame db =
     (case pivot [''growth_curve_component_id''] (\<lambda>i. [Num i]) ''classifier_value'' LStr
             (components_sql db) of
        Inl e \<Rightarrow> Inl e
      | Inr pivoted \<Rightarrow>
         (case reset_index (\<lambda>n. (LStr n, LStr '''')) pivoted of
            Inl e \<Rightarrow> Inl e
          | Inr r \<Rightarrow>
             (case set_index ''growth_curve_component_id'' r of
                Inl e \<Rightarrow> Inl e
              | Inr s \<Rightarrow> Inr (flatten_frame s))))"

definition component_species :: "database \<Rightarrow> label frame" where
  "component_species db =
     \<lparr>index_names = [''growth_curve_component_id''],
      index = map (\<lambda>(i, s). [Num i]) (species_sql db),
      labels = [LStr ''species''],
      data = map (\<lambda>(i, s). [Str s]) (species_sql db)\<rparr>"

definition component_values :: "database \<Rightarrow> error + label frame" where
  "component_values db =
     (case pivot [''growth_curve_component_id''] (\<lambda>i. [Num i]) ''merchantable_volume'' LInt
             (values_sql db) of
        Inl e \<Rightarrow> Inl e
      | Inr pivoted \<Rightarrow> Inr (flatten_frame pivoted))"

text \<open>\<open>components.join(component_species).join(component_values).reset_index()\<close>\<close>

definition yield_curves :: "database \<Rightarrow> error + label frame" where
  "yield_curves db =
     (case components_frame db of
        Inl e \<Rightarrow> Inl e
      | Inr components \<Rightarrow>
         (case component_values db of
            Inl e \<Rightarrow> Inl e
          | Inr vals \<Rightarrow>
             (case join_frames components (component_species db) of
                Inl e \<Rightarrow> Inl e
              | Inr with_species \<Rightarrow>
                 (case join_frames with_species vals of
                    Inl e \<Rightarrow> Inl e
                  | Inr joined \<Rightarrow> reset_index LStr joined))))"

text \<open>\<open>to_csv(path, index=False)\<close>: the labels and the data rows, without the index.\<close>

definition to_csv :: "label frame \<Rightarrow> path \<Rightarrow> fs \<Rightarrow> error option \<times> fs" where
  "to_csv f p fs =
     (case open_w fs p (Csv (labels f) (data f)) of
        Inl e \<Rightarrow> (Some e, fs)
      | Inr fs' \<Rightarrow> (None, fs'))"

definition convert_yields :: "project \<Rightarrow> path \<Rightarrow> fs \<Rightarrow> error option \<times> fs" where
  "convert_yields p out fs =
     (case yield_curves (input_db_connection p) of
        Inl e \<Rightarrow> (Some e, fs)
      | Inr curves \<Rightarrow>
         (case drop_column ''growth_curve_component_id'' curves of
            Inl e \<Rightarrow> (Some e, fs)
          | Inr table \<Rightarrow> to_csv table (out @ [''sit_yields.csv'']) fs))"

definition transitions_frame :: "database \<Rightarrow> error + label frame" where
  "transitions_frame db =
     (case pivot [''id'', ''regen_delay'', ''age_after'']
             (\<lambda>(i, d, a). [Num i, Num d, Num a]) ''classifier_value'' LStr
             (transitions_sql db) of
        Inl e \<Rightarrow> Inl e
      | Inr pivoted \<Rightarrow>
         (case reset_index (\<lambda>n. (LStr n, LStr '''')) pivoted of
            Inl e \<Rightarrow> Inl e
          | Inr r \<Rightarrow> Inr (flatten_frame r)))"

definition convert_transitions :: "project \<Rightarrow> path \<Rightarrow> fs \<Rightarrow> error option \<times> fs" where
  "convert_transitions p out fs =
     (case transitions_frame (input_db_connection p) of
        Inl e \<Rightarrow> (Some e, fs)
      | Inr table \<Rightarrow> to_csv table (out @ [''sit_transitions.csv'']) fs)"

text \<open>
  \<open>shutil.rmtree(path, ignore_errors=True)\<close> removes the path and everything below it;
  on a regular file it raises NotADirectoryError, which is ignored, and nothing changes.
  \<open>Path.mkdir(parents=True, exist_ok=True)\<close> creates the directory and its missing
  ancestors; it raises when the path is a regular file or lies below one.
\<close>

definition is_file :: "fs \<Rightarrow> path \<Rightarrow> bool" where
  "is_file fs p = (case fs p of Some (File c) \<Rightarrow> True | _ \<Rightarrow> False)"

definition rmtree :: "path \<Rightarrow> fs \<Rightarrow> fs" where
  "rmtree p fs = (if is_file fs p then fs else (\<lambda>q. if prefix p q then None else fs q))"

definition mkdir_parents :: "path \<Rightarrow> fs \<Rightarrow> error + fs" where
  "mkdir_parents p fs =
     (if is_file fs p then Inl FileExistsError
      else if list_ex (is_file fs) (prefixes p) then Inl NotADirectoryError
      else Inr (\<lambda>q. if prefix q p \<and> q \<noteq> [] then Some Dir else fs q))"

text \<open>
  \<open>convert\<close>: the output directory is removed and made anew, then the four steps run.
  \<open>_build_input_database\<close> and \<open>_convert_spatial_data\<close> call engines outside this
  module; they are the parameters \<open>build_input_database\<close> (which returns the path of the
  defaults database) and \<open>convert_spatial_data\<close>.
\<close>

definition convert ::
  "(project \<Rightarrow> path \<Rightarrow> path option \<Rightarrow> fs \<Rightarrow> (error + path) \<times> fs) \<Rightarrow>
   (path \<Rightarrow> project \<Rightarrow> path \<Rightarrow> fs \<Rightarrow> error option \<times> fs) \<Rightarrow>
   project \<Rightarrow> path \<Rightarrow> path option \<Rightarrow> fs \<Rightarrow> error option \<times> fs" where
  "convert build_input_database convert_spatial_data p out aidb_path fs =
     (case mkdir_parents out (rmtree out fs) of
        Inl e \<Rightarrow> (Some e, rmtree out fs)
      | Inr fs1 \<Rightarrow>
         (case convert_yields p out fs1 of
            (Some e, fs2) \<Rightarrow> (Some e, fs2)
          | (None, fs2) \<Rightarrow>
             (case convert_transitions p out fs2 of
                (Some e, fs3) \<Rightarrow> (Some e, fs3)
              | (None, fs3) \<Rightarrow>
                 (case build_input_database p out aidb_path fs3 of
                    (Inl e, fs4) \<Rightarrow> (Some e, fs4)
                  | (Inr cbm_defaults_path, fs4) \<Rightarrow>
                      convert_spatial_data cbm_defaults_path p out fs4))))"

(*DEFS_END*)

section \<open>Verification\<close>

lemma map_of_dict_set: "map_of (dict_set d k v) = (map_of d)(k \<mapsto> v)"
  by (induction d k v rule: dict_set.induct) (auto simp: fun_eq_iff)

lemma keys_dict_set: "map fst (dict_set d k v) = (if k \<in> fst ` set d then map fst d else map fst d @ [k])"
  by (induction d k v rule: dict_set.induct) (auto simp: image_iff)


lemma sort_key_fst_unique:
  fixes a b :: "('k::linorder \<times> 'v) list"
  assumes "distinct (map fst a)" "distinct (map fst b)" "set a = set b"
  shows "sort_key fst a = sort_key fst b"
proof -
  let ?xs = "sort_key fst a" and ?ys = "sort_key fst b"
  have da: "distinct (map fst ?xs)" using assms(1)
    by (metis distinct_map distinct_sort set_sort)
  have db: "distinct (map fst ?ys)" using assms(2)
    by (metis distinct_map distinct_sort set_sort)
  have "set (map fst ?xs) = set (map fst ?ys)" using assms(3) by simp
  then have keys: "map fst ?xs = map fst ?ys"
    using da db sorted_distinct_set_unique[of "map fst ?xs" "map fst ?ys"] by simp
  have "inj_on fst (set a)" using assms(1) by (simp add: distinct_map)
  then have "inj_on fst (set ?xs \<union> set ?ys)" using assms(3) by simp
  then show ?thesis using keys inj_on_map_eq_map by blast
qed

lemma key_match_refl: "key_match h a a" by (simp add: key_match_def cs_eq_def)
lemma key_match_sym: "key_match h a b \<Longrightarrow> key_match h b a" by (simp add: key_match_def cs_eq_def)
lemma key_match_trans: "key_match h a b \<Longrightarrow> key_match h b c \<Longrightarrow> key_match h a c" by (simp add: key_match_def cs_eq_def)

lemma length_distributions_put:
  "length (distributions_put h d cs age p) =
     (if \<exists>e\<in>set d. key_match h (fst e) cs then length d else Suc (length d))"
  by (induction h d cs age p rule: distributions_put.induct) auto

lemma distributions_put_has_match:
  "\<exists>e\<in>set (distributions_put h d cs age p). key_match h (fst e) cs"
  by (induction h d cs age p rule: distributions_put.induct) (auto simp: key_match_refl)


lemma classifier_set_or_empty_Some: "classifier_set_or_empty (Some c) = c"
  by (simp add: classifier_set_or_empty_def)

lemma add_distributions:
  "distributions (add h d age p cs) =
     distributions_put h (distributions d) (classifier_set_or_empty cs) age p"
  by (simp add: add_def)

lemma add_disturbance_types: "disturbance_types (add h d age p cs) = disturbance_types d"
  by (simp add: add_def Let_def)

lemma distributions_get_put:
  "distributions_get h (distributions_put h d cs age p) cs' =
     (if key_match h cs cs'
      then Some (dict_set (case distributions_get h d cs of None \<Rightarrow> [] | Some pr \<Rightarrow> pr) age p)
      else distributions_get h d cs')"
proof (induction h d cs age p rule: distributions_put.induct)
  case (1 h cs age proportion)
  then show ?case by (auto simp: distributions_get_def key_match_refl)
next
  case (2 h k props d cs age proportion)
  then show ?case
    by (auto simp: distributions_get_def dest: key_match_trans key_match_sym)
qed


lemma add_all_snoc: "add_all h d (calls @ [(age, p, cs)]) = add h (add_all h d calls) age p cs"
  by (simp add: add_all_def)


lemma disturbance_types_add_all: "disturbance_types (add_all h d calls) = disturbance_types d"
  by (induction calls rule: rev_induct) (auto simp: add_all_def add_disturbance_types)

lemma distribution_field:
  "map_of (distribution_json dt e) ''distribution'' = Some (JPairs (sort_key fst (snd e)))"
  by (simp add: distribution_json_def Let_def map_of_dict_set)




lemma keys_distributions_put:
  "map fst (distributions_put h d cs age p) =
     (if \<exists>k\<in>set (map fst d). key_match h k cs then map fst d else map fst d @ [cs])"
  by (induction h d cs age p rule: distributions_put.induct) auto

lemma keys_unique_put:
  assumes "keys_unique h (map fst d)"
  shows "keys_unique h (map fst (distributions_put h d cs age p))"
proof (cases "\<exists>k\<in>set (map fst d). key_match h k cs")
  case True
  then show ?thesis using assms by (simp add: keys_distributions_put)
next
  case False
  have "length (filter (\<lambda>k. key_match h k c) (map fst d @ [cs])) \<le> 1" for c
  proof (cases "key_match h cs c")
    case True
    have "filter (\<lambda>k. key_match h k c) (map fst d) = []"
    proof (rule ccontr)
      assume "filter (\<lambda>k. key_match h k c) (map fst d) \<noteq> []"
      then obtain k where "k \<in> set (map fst d)" "key_match h k c"
        by (metis (mono_tags, lifting) filter_False)
      then have "key_match h k cs" using True key_match_sym key_match_trans by blast
      then show False using False \<open>k \<in> set (map fst d)\<close> by blast
    qed
    then show ?thesis by simp
  next
    case False
    then show ?thesis using assms by (simp add: keys_unique_def)
  qed
  then show ?thesis using False by (simp add: keys_distributions_put keys_unique_def)
qed

lemma keys_unique_add_all:
  "keys_unique h (map fst (distributions d)) \<Longrightarrow>
   keys_unique h (map fst (distributions (add_all h d calls)))"
proof (induction calls rule: rev_induct)
  case Nil
  then show ?case by (simp add: add_all_def)
next
  case (snoc x xs)
  obtain age p cs where x: "x = (age, p, cs)" by (cases x)
  show ?case unfolding x add_all_snoc add_distributions
    by (rule keys_unique_put) (use snoc in simp)
qed

lemma filter_le1_index:
  "length (filter P xs) \<le> 1 \<Longrightarrow> i < length xs \<Longrightarrow> j < length xs \<Longrightarrow> P (xs ! i) \<Longrightarrow> P (xs ! j)
   \<Longrightarrow> i = j"
proof (induction xs arbitrary: i j)
  case Nil
  then show ?case by simp
next
  case (Cons x xs)
  show ?case
  proof (cases "P x")
    case True
    with Cons.prems(1) have e: "filter P xs = []" by simp
    have "i = 0"
    proof (rule ccontr)
      assume "i \<noteq> 0"
      then obtain i' where "i = Suc i'" by (cases i) auto
      with Cons.prems have "xs ! i' \<in> set xs" "P (xs ! i')" by auto
      with e show False by (metis filter_empty_conv)
    qed
    moreover have "j = 0"
    proof (rule ccontr)
      assume "j \<noteq> 0"
      then obtain j' where "j = Suc j'" by (cases j) auto
      with Cons.prems have "xs ! j' \<in> set xs" "P (xs ! j')" by auto
      with e show False by (metis filter_empty_conv)
    qed
    ultimately show ?thesis by simp
  next
    case False
    with Cons.prems obtain i' j' where ij: "i = Suc i'" "j = Suc j'"
      by (metis nth_Cons_0 not0_implies_Suc)
    with Cons.prems False have "i' = j'"
      by (intro Cons.IH) auto
    with ij show ?thesis by simp
  qed
qed

lemma distributions_get_index:
  assumes "distributions_get h d cs = Some props"
  shows "\<exists>i<length d. key_match h (fst (d ! i)) cs \<and> snd (d ! i) = props"
proof -
  from assms obtain e where f: "find (\<lambda>e. key_match h (fst e) cs) d = Some e" and p: "snd e = props"
    unfolding distributions_get_def by auto
  from f obtain i where "i < length d" "key_match h (fst (d ! i)) cs" "e = d ! i"
    unfolding find_Some_iff by blast
  with p show ?thesis by blast
qed






lemma distributions_get_match:
  "key_match h x y \<Longrightarrow> distributions_get h D x = distributions_get h D y"
proof -
  assume m: "key_match h x y"
  have "\<And>e. key_match h (fst e) x = key_match h (fst e) y"
    using m by (auto intro: key_match_trans key_match_sym)
  then have "find (\<lambda>e. key_match h (fst e) x) D = find (\<lambda>e. key_match h (fst e) y) D"
    by (intro find_cong) auto
  then show ?thesis by (simp only: distributions_get_def)
qed

lemma age_kept_put:
  assumes "distributions_get h D cs = Some props" "age \<in> fst ` set props"
  shows "\<exists>props'. distributions_get h (distributions_put h D cs' age' p') cs = Some props'
           \<and> age \<in> fst ` set props'"
proof (cases "key_match h cs' cs")
  case True
  then have "distributions_get h D cs' = Some props"
    using assms(1) distributions_get_match by metis
  then have "distributions_get h (distributions_put h D cs' age' p') cs
               = Some (dict_set props age' p')"
    using True by (simp add: distributions_get_put)
  moreover have "age \<in> fst ` set (dict_set props age' p')"
    using assms(2) keys_dict_set[of props age' p'] by (metis (no_types, lifting) Un_iff list.set_map set_append)
  ultimately show ?thesis by blast
next
  case False
  then show ?thesis using assms by (simp add: distributions_get_put)
qed

lemma age_recorded:
  assumes "(age, p, cs) \<in> set calls"
  shows "\<exists>props. distributions_get h (distributions (add_all h d calls))
                    (classifier_set_or_empty cs) = Some props \<and> age \<in> fst ` set props"
  using assms
proof (induction calls rule: rev_induct)
  case Nil
  then show ?case by simp
next
  case (snoc x xs)
  obtain age' p' cs' where x: "x = (age', p', cs')" by (cases x)
  have e: "distributions (add_all h d (xs @ [x]))
             = distributions_put h (distributions (add_all h d xs))
                 (classifier_set_or_empty cs') age' p'"
    unfolding x by (simp add: add_all_snoc add_distributions)
  show ?case
  proof (cases "(age, p, cs) \<in> set xs")
    case True
    then obtain props where
      "distributions_get h (distributions (add_all h d xs)) (classifier_set_or_empty cs)
         = Some props" "age \<in> fst ` set props"
      using snoc.IH by blast
    then show ?thesis unfolding e by (rule age_kept_put)
  next
    case False
    then have eq: "age' = age" "cs' = cs" using snoc.prems x by auto
    have "distributions_get h (distributions_put h (distributions (add_all h d xs))
             (classifier_set_or_empty cs) age p') (classifier_set_or_empty cs)
          = Some (dict_set (case distributions_get h (distributions (add_all h d xs))
                                   (classifier_set_or_empty cs) of
                               None \<Rightarrow> [] | Some pr \<Rightarrow> pr) age p')"
      by (simp add: distributions_get_put key_match_refl)
    moreover have "age \<in> fst ` set (dict_set q age p')" for q :: "(int \<times> 'a) list"
      using map_of_dict_set[of q age p'] by (metis fun_upd_same map_of_SomeD fst_conv image_eqI)
    ultimately show ?thesis unfolding e eq by blast
  qed
qed


lemma merged_record:
  fixes calls :: "(int \<times> 'p \<times> (string, cell) dict option) list"
  assumes m: "key_match h a b"
    and ca: "(age1, p1, Some a) \<in> set calls" and cb: "(age2, p2, Some b) \<in> set calls"
  shows "\<exists>i<length (to_json (add_all h (AgeDistribution dt) calls)).
          key_match h (fst (distributions (add_all h (AgeDistribution dt) calls) ! i)) a \<and>
          key_match h (fst (distributions (add_all h (AgeDistribution dt) calls) ! i)) b \<and>
          (\<forall>j<length (to_json (add_all h (AgeDistribution dt) calls)).
             key_match h (fst (distributions (add_all h (AgeDistribution dt) calls) ! j)) a \<or>
             key_match h (fst (distributions (add_all h (AgeDistribution dt) calls) ! j)) b
             \<longrightarrow> j = i) \<and>
          (\<exists>ps. map_of (to_json (add_all h (AgeDistribution dt) calls) ! i) ''distribution''
                  = Some (JPairs ps) \<and> age1 \<in> fst ` set ps \<and> age2 \<in> fst ` set ps)"
proof -
  define D where "D = add_all h (AgeDistribution dt :: 'p age_distribution) calls"
  have len: "length (to_json D) = length (distributions D)" by (simp add: to_json_def)
  obtain props where ga: "distributions_get h (distributions D) a = Some props"
    and a1: "age1 \<in> fst ` set props"
    using age_recorded[OF ca, of h "AgeDistribution dt"]
    unfolding D_def classifier_set_or_empty_Some by blast
  obtain props' where gb: "distributions_get h (distributions D) b = Some props'"
    and a2: "age2 \<in> fst ` set props'"
    using age_recorded[OF cb, of h "AgeDistribution dt"]
    unfolding D_def classifier_set_or_empty_Some by blast
  have "props' = props" using ga gb distributions_get_match[OF m, of "distributions D"] by simp
  then have a2': "age2 \<in> fst ` set props" using a2 by simp
  from distributions_get_index[OF ga] obtain i where
    i: "i < length (distributions D)" "key_match h (fst (distributions D ! i)) a"
       "snd (distributions D ! i) = props"
    by blast
  have ib: "key_match h (fst (distributions D ! i)) b"
    using i(2) m by (rule key_match_trans)
  have uniq: "keys_unique h (map fst (distributions D))"
    unfolding D_def by (rule keys_unique_add_all) (simp add: AgeDistribution_def keys_unique_def)
  have only: "j = i" if "j < length (distributions D)"
      "key_match h (fst (distributions D ! j)) a \<or> key_match h (fst (distributions D ! j)) b" for j
  proof -
    have ja: "key_match h (fst (distributions D ! j)) a"
      using that(2) m by (auto intro: key_match_trans key_match_sym)
    have "length (filter (\<lambda>k. key_match h k a) (map fst (distributions D))) \<le> 1"
      using uniq unfolding keys_unique_def by blast
    then show ?thesis
      using filter_le1_index[of "\<lambda>k. key_match h k a" "map fst (distributions D)" j i] that(1) ja i
      by simp
  qed
  have "to_json D ! i = distribution_json (disturbance_types D) (distributions D ! i)"
    using i(1) by (simp add: to_json_def)
  then have f: "map_of (to_json D ! i) ''distribution'' = Some (JPairs (sort_key fst props))"
    using i(3) distribution_field[of "disturbance_types D" "distributions D ! i"] by simp
  have s: "fst ` set (sort_key fst props) = fst ` set props" by simp
  have "i < length (to_json D) \<and> key_match h (fst (distributions D ! i)) a \<and>
        key_match h (fst (distributions D ! i)) b \<and>
        (\<forall>j<length (to_json D). key_match h (fst (distributions D ! j)) a \<or>
             key_match h (fst (distributions D ! j)) b \<longrightarrow> j = i) \<and>
        (\<exists>ps. map_of (to_json D ! i) ''distribution'' = Some (JPairs ps) \<and>
              age1 \<in> fst ` set ps \<and> age2 \<in> fst ` set ps)"
    using i(1,2) ib only f a1 a2' s unfolding len by blast
  then show ?thesis unfolding D_def by blast
qed



lemma two_rows_one_record:
  assumes "key_match h a b"
  shows "to_json (add h (add h (AgeDistribution dt) age1 p1 (Some a)) age2 p2 (Some b))
           = [distribution_json dt (a, dict_set [(age1, p1)] age2 p2)]"
proof -
  have d: "distributions (add h (add h (AgeDistribution dt) age1 p1 (Some a)) age2 p2 (Some b))
             = [(a, dict_set [(age1, p1)] age2 p2)]"
    using assms
    by (simp only: add_distributions classifier_set_or_empty_Some AgeDistribution_def
        age_distribution.simps distributions_put.simps if_True)
  have t: "disturbance_types (add h (add h (AgeDistribution dt) age1 p1 (Some a)) age2 p2 (Some b))
             = dt"
    by (simp only: add_disturbance_types AgeDistribution_def age_distribution.simps)
  show ?thesis by (simp only: to_json_def d t list.map)
qed

subsection \<open>Order-independent classifier-set keys\<close>

text \<open>
  Claim C3. Two classifier sets (dicts, so with pairwise distinct names) that hold the same
  (name, value) pairs in different insertion order compare equal under \<open>__eq__\<close> and have
  the same hash. Whenever two rows with such keys are added to one distribution object,
  anywhere in the sequence of its rows, exactly one emitted record belongs to either key
  and its age sequence holds the ages of both rows: the rows merge into one record. Two
  such rows alone give the single record of the first key with both ages.
\<close>

theorem classifier_set_order_independent:
  fixes calls :: "(int \<times> 'p \<times> (string, cell) dict option) list"
  assumes "distinct (map fst a)" "distinct (map fst b)" "set a = set b"
  shows "cs_eq a b \<and> cs_hash h a = cs_hash h b \<and>
         ((age1, p1, Some a) \<in> set calls \<and> (age2, p2, Some b) \<in> set calls \<longrightarrow>
          (\<exists>i<length (to_json (add_all h (AgeDistribution dt) calls)).
             key_match h (fst (distributions (add_all h (AgeDistribution dt) calls) ! i)) a \<and>
             key_match h (fst (distributions (add_all h (AgeDistribution dt) calls) ! i)) b \<and>
             (\<forall>j<length (to_json (add_all h (AgeDistribution dt) calls)).
                key_match h (fst (distributions (add_all h (AgeDistribution dt) calls) ! j)) a \<or>
                key_match h (fst (distributions (add_all h (AgeDistribution dt) calls) ! j)) b
                \<longrightarrow> j = i) \<and>
             (\<exists>ps. map_of (to_json (add_all h (AgeDistribution dt) calls) ! i) ''distribution''
                     = Some (JPairs ps) \<and> age1 \<in> fst ` set ps \<and> age2 \<in> fst ` set ps))) \<and>
         to_json (add h (add h (AgeDistribution dt) age1 p1 (Some a)) age2 p2 (Some b))
           = [distribution_json dt (a, dict_set [(age1, p1)] age2 p2)]"
proof (intro conjI impI)
  have s: "sorted_items a = sorted_items b"
    unfolding sorted_items_def using assms by (rule sort_key_fst_unique)
  then have m: "key_match h a b" by (simp add: key_match_def cs_eq_def cs_hash_def)
  show "cs_eq a b" using s by (simp add: cs_eq_def)
  show "cs_hash h a = cs_hash h b" using s by (simp add: cs_hash_def)
  show "to_json (add h (add h (AgeDistribution dt) age1 p1 (Some a)) age2 p2 (Some b))
           = [distribution_json dt (a, dict_set [(age1, p1)] age2 p2)]"
    by (rule two_rows_one_record[OF m])
  assume c: "(age1, p1, Some a) \<in> set calls \<and> (age2, p2, Some b) \<in> set calls"
  show "\<exists>i<length (to_json (add_all h (AgeDistribution dt) calls)).
             key_match h (fst (distributions (add_all h (AgeDistribution dt) calls) ! i)) a \<and>
             key_match h (fst (distributions (add_all h (AgeDistribution dt) calls) ! i)) b \<and>
             (\<forall>j<length (to_json (add_all h (AgeDistribution dt) calls)).
                key_match h (fst (distributions (add_all h (AgeDistribution dt) calls) ! j)) a \<or>
                key_match h (fst (distributions (add_all h (AgeDistribution dt) calls) ! j)) b
                \<longrightarrow> j = i) \<and>
             (\<exists>ps. map_of (to_json (add_all h (AgeDistribution dt) calls) ! i) ''distribution''
                     = Some (JPairs ps) \<and> age1 \<in> fst ` set ps \<and> age2 \<in> fst ` set ps)"
    by (rule merged_record[OF m conjunct1[OF c] conjunct2[OF c]])
qed

theorem classifier_set_order_independent_witness:
  "(\<exists>i<length (to_json (add_all (\<lambda>_. 0) (AgeDistribution None)
        [(1, Num 1, Some [(''species'', Str ''fir''), (''region'', Str ''bc'')]), (7, Num 3, Some [(''species'', Str ''oak'')]), (2, Num 2, Some [(''region'', Str ''bc''), (''species'', Str ''fir'')])])).
      key_match (\<lambda>_. 0) (fst (distributions (add_all (\<lambda>_. 0) (AgeDistribution None)
        [(1, Num 1, Some [(''species'', Str ''fir''), (''region'', Str ''bc'')]), (7, Num 3, Some [(''species'', Str ''oak'')]), (2, Num 2, Some [(''region'', Str ''bc''), (''species'', Str ''fir'')])]) ! i)) [(''species'', Str ''fir''), (''region'', Str ''bc'')] \<and>
      key_match (\<lambda>_. 0) (fst (distributions (add_all (\<lambda>_. 0) (AgeDistribution None)
        [(1, Num 1, Some [(''species'', Str ''fir''), (''region'', Str ''bc'')]), (7, Num 3, Some [(''species'', Str ''oak'')]), (2, Num 2, Some [(''region'', Str ''bc''), (''species'', Str ''fir'')])]) ! i)) [(''region'', Str ''bc''), (''species'', Str ''fir'')] \<and>
      (\<forall>j<length (to_json (add_all (\<lambda>_. 0) (AgeDistribution None)
        [(1, Num 1, Some [(''species'', Str ''fir''), (''region'', Str ''bc'')]), (7, Num 3, Some [(''species'', Str ''oak'')]), (2, Num 2, Some [(''region'', Str ''bc''), (''species'', Str ''fir'')])])).
         key_match (\<lambda>_. 0) (fst (distributions (add_all (\<lambda>_. 0) (AgeDistribution None)
        [(1, Num 1, Some [(''species'', Str ''fir''), (''region'', Str ''bc'')]), (7, Num 3, Some [(''species'', Str ''oak'')]), (2, Num 2, Some [(''region'', Str ''bc''), (''species'', Str ''fir'')])]) ! j)) [(''species'', Str ''fir''), (''region'', Str ''bc'')] \<or>
         key_match (\<lambda>_. 0) (fst (distributions (add_all (\<lambda>_. 0) (AgeDistribution None)
        [(1, Num 1, Some [(''species'', Str ''fir''), (''region'', Str ''bc'')]), (7, Num 3, Some [(''species'', Str ''oak'')]), (2, Num 2, Some [(''region'', Str ''bc''), (''species'', Str ''fir'')])]) ! j)) [(''region'', Str ''bc''), (''species'', Str ''fir'')]
         \<longrightarrow> j = i) \<and>
      (\<exists>ps. map_of (to_json (add_all (\<lambda>_. 0) (AgeDistribution None)
        [(1, Num 1, Some [(''species'', Str ''fir''), (''region'', Str ''bc'')]), (7, Num 3, Some [(''species'', Str ''oak'')]), (2, Num 2, Some [(''region'', Str ''bc''), (''species'', Str ''fir'')])]) ! i) ''distribution'' = Some (JPairs ps) \<and>
            1 \<in> fst ` set ps \<and> 2 \<in> fst ` set ps)) \<and>
   to_json (add (\<lambda>_. 0) (add (\<lambda>_. 0) (AgeDistribution None) 1 (Num 1) (Some [(''species'', Str ''fir''), (''region'', Str ''bc'')]))
              2 (Num 2) (Some [(''region'', Str ''bc''), (''species'', Str ''fir'')]))
     = [distribution_json None ([(''species'', Str ''fir''), (''region'', Str ''bc'')], dict_set [(1, Num 1)] 2 (Num 2))]"
proof -
  have d1: "distinct (map fst [(''species'', Str ''fir''), (''region'', Str ''bc'')])" by simp
  have d2: "distinct (map fst [(''region'', Str ''bc''), (''species'', Str ''fir'')])" by simp
  have s: "set [(''species'', Str ''fir''), (''region'', Str ''bc'')] = set [(''region'', Str ''bc''), (''species'', Str ''fir'')]" by auto
  have mem: "(1, Num 1, Some [(''species'', Str ''fir''), (''region'', Str ''bc'')]) \<in> set [(1, Num 1, Some [(''species'', Str ''fir''), (''region'', Str ''bc'')]), (7, Num 3, Some [(''species'', Str ''oak'')]), (2, Num 2, Some [(''region'', Str ''bc''), (''species'', Str ''fir'')])] \<and>
             (2, Num 2, Some [(''region'', Str ''bc''), (''species'', Str ''fir'')]) \<in> set [(1, Num 1, Some [(''species'', Str ''fir''), (''region'', Str ''bc'')]), (7, Num 3, Some [(''species'', Str ''oak'')]), (2, Num 2, Some [(''region'', Str ''bc''), (''species'', Str ''fir'')])]"
    by simp
  note t = classifier_set_order_independent[OF d1 d2 s, where h = "\<lambda>_. 0" and dt = None
      and calls = "[(1, Num 1, Some [(''species'', Str ''fir''), (''region'', Str ''bc'')]), (7, Num 3, Some [(''species'', Str ''oak'')]), (2, Num 2, Some [(''region'', Str ''bc''), (''species'', Str ''fir'')])]" and ?age1.0 = 1 and ?p1.0 = "Num 1" and ?age2.0 = 2 and ?p2.0 = "Num 2"]
  note u = conjunct2[OF conjunct2[OF t]]
  show ?thesis
    by (rule conjI[OF mp[OF conjunct1[OF u] mem] conjunct2[OF u]])
qed

subsection \<open>Emitted age distributions\<close>



lemma flatten_nth:
  "flatten_pivot_columns cols = map (\<lambda>(outer, inner). if inner \<noteq> LStr '''' then inner else outer) cols"
  by (rule nth_equalityI) (auto simp: flatten_pivot_columns_def get_level_values_def split: prod.splits)

lemma keys_foldl_dict_set:
  "fst ` set (foldl (\<lambda>d (k, v). dict_set d k v) d0 ps) = fst ` set d0 \<union> fst ` set ps"
proof (induction ps arbitrary: d0)
  case Nil
  then show ?case by simp
next
  case (Cons p ps)
  obtain k v where p: "p = (k, v)" by (cases p)
  have "fst ` set (dict_set d0 k v) = insert k (fst ` set d0)"
    by (induction d0 k v rule: dict_set.induct) auto
  then show ?case using Cons[of "dict_set d0 k v"] p by auto
qed

lemma keys_dict_of_pairs: "fst ` set (dict_of_pairs ps) = fst ` set ps"
  by (simp add: dict_of_pairs_def keys_foldl_dict_set)

lemma dict_item_missing:
  "k \<notin> set cols \<Longrightarrow> dict_item (dict_of_pairs (zip cols row)) k = Inl (KeyError k)"
proof -
  assume "k \<notin> set cols"
  then have "k \<notin> fst ` set (zip cols row)" by (auto dest: set_zip_leftD)
  then have "k \<notin> fst ` set (dict_of_pairs (zip cols row))" by (simp add: keys_dict_of_pairs)
  then have "map_of (dict_of_pairs (zip cols row)) k = None" by (simp add: map_of_eq_None_iff)
  then show ?thesis by (simp add: dict_item_def)
qed

lemma add_row_missing:
  assumes "''min_age'' \<notin> set cols \<or> ''proportion'' \<notin> set cols"
  shows "\<exists>e. add_row h parse classifiers cols d row = Inl e"
  using assms dict_item_missing[of "''min_age''" cols row] dict_item_missing[of "''proportion''" cols row]
  by (auto simp: add_row_def Let_def split: sum.splits)

lemma add_rows_missing:
  assumes "''min_age'' \<notin> set cols \<or> ''proportion'' \<notin> set cols" "rs \<noteq> []"
  shows "\<exists>e. add_rows h parse classifiers cols d rs = Inl e"
proof (cases rs)
  case Nil
  then show ?thesis using assms by simp
next
  case (Cons r rest)
  obtain e where "add_row h parse classifiers cols d r = Inl e"
    using add_row_missing[OF assms(1)] by blast
  then show ?thesis using Cons by simp
qed

lemma convert_sheets_missing:
  assumes "sheet_name \<in> fst ` set sheets" "read_excel wb sheet_name = Inr s" "rows s \<noteq> []"
    "''min_age'' \<notin> set (columns s) \<or> ''proportion'' \<notin> set (columns s)"
  shows "\<exists>e. convert_sheets h parse classifiers wb sheets acc = Inl e"
  using assms(1)
proof (induction sheets arbitrary: acc)
  case Nil
  then show ?case by simp
next
  case (Cons x xs)
  obtain n dts where x: "x = (n, dts)" by (cases x)
  show ?case
  proof (cases "n = sheet_name")
    case True
    obtain e where "add_rows h parse classifiers (columns s) (AgeDistribution (Some dts)) (rows s) = Inl e"
      using add_rows_missing[OF assms(4) assms(3)] by blast
    then show ?thesis using True x assms(2) by simp
  next
    case False
    then have "sheet_name \<in> fst ` set xs" using Cons.prems x by auto
    then have "\<And>acc. \<exists>e. convert_sheets h parse classifiers wb xs acc = Inl e" using Cons.IH by blast
    then show ?thesis using x by (auto split: sum.splits)
  qed
qed

lemma keys_to_dict: "fst ` set (to_dict s) = set (columns s)"
proof -
  have "fst ` set (to_dict s) = (\<lambda>j. columns s ! j) ` {0..<length (columns s)}"
    by (simp add: to_dict_def keys_dict_of_pairs image_image)
  also have "\<dots> = set (columns s)"
    by (auto simp: set_conv_nth)
  finally show ?thesis .
qed

lemma keys_distribution_sheets: "fst ` set (distribution_sheets root) = set (columns root)"
proof -
  have "fst ` set (distribution_sheets root) = fst ` set (to_dict root)"
    by (force simp: distribution_sheets_def keys_dict_of_pairs image_iff split: prod.splits)
  then show ?thesis by (simp add: keys_to_dict)
qed

subsection \<open>Flattening pivot columns\<close>

text \<open>
  Claim C8. Flattening keeps the number and the order of the columns and maps every column
  on its own: to its inner label when that is not the empty string, and to its outer label
  otherwise.
\<close>

theorem flatten_pivot_columns_rule:
  "length (flatten_pivot_columns cols) = length cols \<and>
   flatten_pivot_columns cols
     = map (\<lambda>(outer, inner). if inner \<noteq> LStr '''' then inner else outer) cols"
proof
  show "length (flatten_pivot_columns cols) = length cols"
    by (simp add: flatten_pivot_columns_def)
  show "flatten_pivot_columns cols
     = map (\<lambda>(outer, inner). if inner \<noteq> LStr '''' then inner else outer) cols"
    by (rule flatten_nth)
qed

subsection \<open>The classifier set of a spreadsheet row\<close>

text \<open>
  Claim C9 says that a classifier whose cell is blank is left out of the key and that a
  non-blank cell is always in it. The code filters on the truth value of the cell: a blank
  cell of a distribution sheet is NaN, which is true, so the classifier stays in the key
  with the value NaN; and the non-blank cell \<open>0\<close> is false, so that classifier is left
  out. (The root sheet is read through \<open>replace([np.nan], [None])\<close> first; the
  distribution sheets are not.)
\<close>

theorem row_classifier_set_blank_cell:
  "row_classifier_set [\<lparr>name = ''species''\<rparr>, \<lparr>name = ''plot''\<rparr>]
     (dict_of_pairs (zip [''species'', ''plot'', ''min_age'', ''proportion'']
                         [NaN 0, Num 0, Num 5, Num 1]))
   = [(''species'', NaN 0)]"
  by (simp add: row_classifier_set_def dict_of_pairs_def dict_get_def)

subsection \<open>Sheets without the required columns\<close>

text \<open>
  Claim C6, as stated, fails for a distribution sheet that lacks the columns and has no
  data row: the loop over its rows never reads a column, nothing is raised and the JSON
  file is written.
\<close>

theorem convert_age_distribution_empty_sheet_counterexample:
  "convert_age_distribution (\<lambda>_. 0) (\<lambda>_. None)
     [(''age_distribution'', \<lparr>columns = [''burned''], rows = [[Str ''Wildfire'']]\<rparr>),
      (''burned'', \<lparr>columns = [''species''], rows = []\<rparr>)]
     [] [''age_distribution.json''] Map.empty
   = (None, [[''age_distribution.json''] \<mapsto> File (Json [])])"
  by (simp add: convert_age_distribution_def read_excel_def distribution_sheets_def to_dict_def
      dict_of_pairs_def column_values_def replace_nan_def open_w_def is_dir_def
      AgeDistribution_def to_json_def)

text \<open>
  Claim C6, amended. When a distribution sheet named by the root sheet has at least one
  data row and lacks the \<open>min_age\<close> or the \<open>proportion\<close> column, the conversion raises
  and leaves the file system as it was: no JSON file is written, neither whole nor in part.
\<close>

theorem convert_age_distribution_missing_column:
  assumes "read_excel wb ''age_distribution'' = Inr root_sheet"
    and "sheet_name \<in> set (columns root_sheet)"
    and "read_excel wb sheet_name = Inr s"
    and "rows s \<noteq> []"
    and "''min_age'' \<notin> set (columns s) \<or> ''proportion'' \<notin> set (columns s)"
  shows "\<exists>e. convert_age_distribution h parse wb classifiers out fs = (Some e, fs)"
proof -
  have "sheet_name \<in> fst ` set (distribution_sheets root_sheet)"
    using assms(2) by (simp add: keys_distribution_sheets)
  then obtain e where
    "convert_sheets h parse classifiers wb (distribution_sheets root_sheet) [] = Inl e"
    using convert_sheets_missing[OF _ assms(3) assms(4) assms(5)] by blast
  then show ?thesis using assms(1) by (simp add: convert_age_distribution_def)
qed

theorem convert_age_distribution_missing_column_witness:
  "\<exists>e. convert_age_distribution (\<lambda>_. 0) (\<lambda>_. None)
     [(''age_distribution'', \<lparr>columns = [''burned''], rows = [[Str ''Wildfire'']]\<rparr>),
      (''burned'', \<lparr>columns = [''species'', ''proportion''], rows = [[Str ''fir'', Num 1]]\<rparr>)]
     [\<lparr>name = ''species''\<rparr>] [''age_distribution.json''] Map.empty
   = (Some e, Map.empty)"
proof -
  let ?wb = "[(''age_distribution'', \<lparr>columns = [''burned''], rows = [[Str ''Wildfire'']]\<rparr>),
      (''burned'', \<lparr>columns = [''species'', ''proportion''], rows = [[Str ''fir'', Num 1]]\<rparr>)]"
  have a: "read_excel ?wb ''age_distribution''
             = Inr \<lparr>columns = [''burned''], rows = [[Str ''Wildfire'']]\<rparr>"
    by (simp add: read_excel_def)
  have b: "''burned'' \<in> set (columns \<lparr>columns = [''burned''], rows = [[Str ''Wildfire'']]\<rparr>)"
    by simp
  have c: "read_excel ?wb ''burned''
             = Inr \<lparr>columns = [''species'', ''proportion''], rows = [[Str ''fir'', Num 1]]\<rparr>"
    by (simp add: read_excel_def)
  have d: "rows \<lparr>columns = [''species'', ''proportion''], rows = [[Str ''fir'', Num 1]]\<rparr> \<noteq> []"
    by simp
  have e: "''min_age'' \<notin> set (columns \<lparr>columns = [''species'', ''proportion''],
                 rows = [[Str ''fir'', Num 1]]\<rparr>)
           \<or> ''proportion'' \<notin> set (columns \<lparr>columns = [''species'', ''proportion''],
                 rows = [[Str ''fir'', Num 1]]\<rparr>)"
    by simp
  show ?thesis
    by (rule convert_age_distribution_missing_column[OF a b c d e])
qed

lemma foldl_min_Min: "foldl min (a::int) xs = Min (insert a (set xs))"
proof (induction xs arbitrary: a)
  case Nil
  then show ?case by simp
next
  case (Cons x xs)
  have "Min (insert (min a x) (set xs)) = Min (insert a (insert x (set xs)))"
    by (cases "set xs = {}") (auto simp: min.assoc)
  then show ?case using Cons by simp
qed

lemma foldl_max_Max: "foldl max (a::int) xs = Max (insert a (set xs))"
proof (induction xs arbitrary: a)
  case Nil
  then show ?case by simp
next
  case (Cons x xs)
  have "Max (insert (max a x) (set xs)) = Max (insert a (insert x (set xs)))"
    by (cases "set xs = {}") (auto simp: max.assoc)
  then show ?case using Cons by simp
qed

lemma py_min_Min: "xs \<noteq> [] \<Longrightarrow> py_min xs = Inr (Min (set xs))"
  by (cases xs) (simp_all add: py_min_def foldl_min_Min)

lemma py_max_Max: "xs \<noteq> [] \<Longrightarrow> py_max xs = Inr (Max (set xs))"
  by (cases xs) (simp_all add: py_max_def foldl_max_Max)

lemma construct_projects_traced:
  "construct_projects (\<lambda>p (w, l). f p w) ps (w, l) = construct_projects f ps w"
  by (induction ps) (auto split: sum.splits)

lemma prepare_all_traced:
  "prepare_all (\<lambda>project tmp i (w, l). case g project tmp i w of (r, w') \<Rightarrow> (r, (w', l)))
       projects tmp i (w, l)
     = (case prepare_all g projects tmp i w of (r, w') \<Rightarrow> (r, (w', l)))"
  by (induction projects arbitrary: i w) (auto split: sum.splits prod.splits)

text \<open>The traced body: the result and world of the plain body, and the trace appended.\<close>

lemma merge_body_traced:
  assumes "merge_body c args tmp w = (r, w')"
  shows "\<exists>t. merge_body (traced c) args tmp (w, l) = (r, (w', l @ t)) \<and>
           prefix (map (stage_of \<circ> fst) t) [Merge, Tile, Patch, Configure] \<and>
           (\<forall>cl\<in>set (butlast t). snd cl) \<and>
           (\<forall>cl\<in>set t. \<not> snd cl \<longrightarrow> r \<noteq> None) \<and>
           (r = None \<longrightarrow> map (stage_of \<circ> fst) t = [Merge, Tile, Patch, Configure] \<and>
                        (\<forall>cl\<in>set t. snd cl)) \<and>
           (\<forall>b. (TileCall b, False) \<in> set t \<longrightarrow> map (stage_of \<circ> fst) t = [Merge, Tile]) \<and>
           (\<forall>projects inventories w1.
              construct_projects (PreparedProject c) (project_paths args) w = Inr projects \<and>
              projects \<noteq> [] \<and>
              prepare_all (prepare_merge c) projects tmp 0 w = (Inr inventories, w1) \<longrightarrow>
              t \<noteq> [] \<and>
              fst (hd t) = MergeCall (length inventories) (Min (start_year ` set projects))
                             ((virtual_memory_available c w1 * 3) div (4 * 1024 ^ 2)) \<and>
              (\<forall>sy ey ok. (ConfigureCall sy ey, ok) \<in> set t \<longrightarrow>
                 sy = Min (start_year ` set projects) \<and> ey = Max (end_year ` set projects)) \<and>
              (r = None \<longrightarrow>
                 last t = (ConfigureCall (Min (start_year ` set projects))
                             (Max (end_year ` set projects)), True)))"
proof (cases "construct_projects (PreparedProject c) (project_paths args) w")
  case (Inl e)
  then show ?thesis using assms
    by (auto simp: merge_body_def traced_def construct_projects_traced)
next
  case (Inr projects)
  note P = Inr
  obtain ri w1 where A: "prepare_all (prepare_merge c) projects tmp 0 w = (ri, w1)"
    by (cases "prepare_all (prepare_merge c) projects tmp 0 w")
  show ?thesis
  proof (cases ri)
    case (Inl e)
    then show ?thesis using assms P A
      by (auto simp: merge_body_def traced_def construct_projects_traced prepare_all_traced)
  next
    case (Inr inventories)
    note I = Inr
    show ?thesis
    proof (cases "projects = []")
      case True
      then show ?thesis using assms P A I
        by (auto simp: merge_body_def traced_def construct_projects_traced prepare_all_traced
            py_min_def)
    next
      case False
      have mn: "py_min (map start_year projects) = Inr (Min (start_year ` set projects))"
        using py_min_Min[of "map start_year projects"] False by simp
      have mx: "py_max (map end_year projects) = Inr (Max (end_year ` set projects))"
        using py_max_Max[of "map end_year projects"] False by simp
      show ?thesis using assms P A I mn mx
        by (auto simp: merge_body_def traced_def Let_def construct_projects_traced
            prepare_all_traced split: sum.splits prod.splits option.splits)
    qed
  qed
qed

lemma merge_traced:
  "merge (traced c) args (w, l) =
     (case temporary_directory c w of
        (tmp, w0) \<Rightarrow>
          (case merge_body (traced c) args tmp (w0, l) of
             (r, (w', l')) \<Rightarrow> (r, (cleanup c tmp w', l'))))"
  by (simp add: merge_def traced_def split: prod.splits)


lemma merge_traced_run:
  assumes "temporary_directory c w = (tmp, w0)" "merge_body c args tmp w0 = (r, w')"
    "merge_body (traced c) args tmp (w0, []) = (r, (w', [] @ t))"
  shows "merge c args w = (r, cleanup c tmp w')"
    and "merge (traced c) args (w, []) = (r, (cleanup c tmp w', t))"
proof -
  show "merge c args w = (r, cleanup c tmp w')"
    using assms(1,2) by (simp add: merge_def)
  show "merge (traced c) args (w, []) = (r, (cleanup c tmp w', t))"
    using assms(1,3) by (simp add: merge_traced)
qed

subsection \<open>The stages of the merge\<close>



subsection \<open>The reconciled years\<close>

text \<open>
  Claim C7. For a non-empty list of projects whose inventories are prepared, \<open>merge\<close>
  calls the merge engine, and calls it with the minimum of the projects' start years;
  every call of the configurer carries this start year and the maximum of the projects'
  end years; and a merge that returns without error has ended with such a call of the
  configurer, which returned.
\<close>

theorem merge_reconciled_years:
  assumes "temporary_directory c w = (tmp, w0)"
    and "construct_projects (PreparedProject c) (project_paths args) w0 = Inr projects"
    and "projects \<noteq> []"
    and "prepare_all (prepare_merge c) projects tmp 0 w0 = (Inr inventories, w1)"
  shows "(snd (snd (merge (traced c) args (w, [])))) \<noteq> [] \<and>
         fst (hd (snd (snd (merge (traced c) args (w, []))))) = MergeCall (length inventories) (Min (start_year ` set projects))
                          ((virtual_memory_available c w1 * 3) div (4 * 1024 ^ 2)) \<and>
         (\<forall>sy ey ok. (ConfigureCall sy ey, ok) \<in> set (snd (snd (merge (traced c) args (w, [])))) \<longrightarrow>
            sy = Min (start_year ` set projects) \<and> ey = Max (end_year ` set projects)) \<and>
         (fst (merge c args w) = None \<longrightarrow>
            last (snd (snd (merge (traced c) args (w, [])))) = (ConfigureCall (Min (start_year ` set projects))
                          (Max (end_year ` set projects)), True))"
proof -
  obtain r w' where B: "merge_body c args tmp w0 = (r, w')"
    by (cases "merge_body c args tmp w0")
  from merge_body_traced[OF B, of "[]"] obtain t where
    t: "merge_body (traced c) args tmp (w0, []) = (r, (w', [] @ t))"
    and y: "\<forall>projects inventories w1.
              construct_projects (PreparedProject c) (project_paths args) w0 = Inr projects \<and>
              projects \<noteq> [] \<and>
              prepare_all (prepare_merge c) projects tmp 0 w0 = (Inr inventories, w1) \<longrightarrow>
              t \<noteq> [] \<and>
              fst (hd t) = MergeCall (length inventories) (Min (start_year ` set projects))
                             ((virtual_memory_available c w1 * 3) div (4 * 1024 ^ 2)) \<and>
              (\<forall>sy ey ok. (ConfigureCall sy ey, ok) \<in> set t \<longrightarrow>
                 sy = Min (start_year ` set projects) \<and> ey = Max (end_year ` set projects)) \<and>
              (r = None \<longrightarrow>
                 last t = (ConfigureCall (Min (start_year ` set projects))
                             (Max (end_year ` set projects)), True))"
    by (elim exE conjE) (rule that, assumption+)
  have m: "merge c args w = (r, cleanup c tmp w')"
    and mt: "merge (traced c) args (w, []) = (r, (cleanup c tmp w', t))"
    using merge_traced_run[OF assms(1) B t] by blast+
  have "t \<noteq> [] \<and>
              fst (hd t) = MergeCall (length inventories) (Min (start_year ` set projects))
                             ((virtual_memory_available c w1 * 3) div (4 * 1024 ^ 2)) \<and>
              (\<forall>sy ey ok. (ConfigureCall sy ey, ok) \<in> set t \<longrightarrow>
                 sy = Min (start_year ` set projects) \<and> ey = Max (end_year ` set projects)) \<and>
              (r = None \<longrightarrow>
                 last t = (ConfigureCall (Min (start_year ` set projects))
                             (Max (end_year ` set projects)), True))"
    by (rule y[rule_format, of projects inventories w1]) (intro conjI assms(2,3,4))
  then show ?thesis
    unfolding m mt fst_conv snd_conv .
qed

theorem merge_reconciled_years_witness:
  "last (snd (snd (merge
      (traced (stub_collaborators
         [([''a''], \<lparr>project_path = [''a''], start_year = 2000, end_year = 2020\<rparr>),
      ([''b''], \<lparr>project_path = [''b''], start_year = 1995, end_year = 2015\<rparr>),
      ([''c''], \<lparr>project_path = [''c''], start_year = 2005, end_year = 2030\<rparr>)] None))
      \<lparr>config_path = [''walltowall.json''], project_paths = [[''a''], [''b''], [''c'']],
       output_path = [''out''], include_index_layer = False\<rparr>
      ([], []))))
   = (ConfigureCall 1995 2030, True)"
proof -
  let ?c = "stub_collaborators
     [([''a''], \<lparr>project_path = [''a''], start_year = 2000, end_year = 2020\<rparr>),
      ([''b''], \<lparr>project_path = [''b''], start_year = 1995, end_year = 2015\<rparr>),
      ([''c''], \<lparr>project_path = [''c''], start_year = 2005, end_year = 2030\<rparr>)] None"
  let ?args = "\<lparr>config_path = [''walltowall.json''],
     project_paths = [[''a''], [''b''], [''c'']],
     output_path = [''out''], include_index_layer = False\<rparr>"
  have t: "temporary_directory ?c [] = ([''tmp''], [[''tmp'']])"
    by (simp add: stub_collaborators_def)
  have a: "construct_projects (PreparedProject ?c) (project_paths ?args) [[''tmp'']]
           = Inr [\<lparr>project_path = [''a''], start_year = 2000, end_year = 2020\<rparr>,
      \<lparr>project_path = [''b''], start_year = 1995, end_year = 2015\<rparr>,
      \<lparr>project_path = [''c''], start_year = 2005, end_year = 2030\<rparr>]"
    by (simp add: stub_collaborators_def)
  have b: "[\<lparr>project_path = [''a''], start_year = 2000, end_year = 2020\<rparr>,
      \<lparr>project_path = [''b''], start_year = 1995, end_year = 2015\<rparr>,
      \<lparr>project_path = [''c''], start_year = 2005, end_year = 2030\<rparr>] \<noteq> []"
    by simp
  have p: "prepare_all (prepare_merge ?c)
     [\<lparr>project_path = [''a''], start_year = 2000, end_year = 2020\<rparr>,
      \<lparr>project_path = [''b''], start_year = 1995, end_year = 2015\<rparr>,
      \<lparr>project_path = [''c''], start_year = 2005, end_year = 2030\<rparr>] [''tmp''] 0 [[''tmp'']] = (Inr [0, 1, 2], [[''tmp'']])"
    by (simp add: stub_collaborators_def)
  have r: "fst (merge ?c ?args []) = None"
    by (simp add: merge_def merge_body_def stub_collaborators_def py_min_def py_max_def)
  show ?thesis
    using merge_reconciled_years[OF t a b p] r by simp
qed

subsection \<open>Merging a single project\<close>

text \<open>
  Claim C1 says that \<open>merge\<close> given fewer than two project paths fails as a configuration
  error before any write. The function has no such check (the command line requires one
  path or more, while its help text asks for at least two): given one project it creates
  the temporary directory, calls the merge engine with the single inventory, then tiles,
  patches and configures. With engines that succeed it returns without an error, with all
  four stages called and the output paths written.
\<close>

theorem merge_single_project_runs:
  "merge
     (traced (stub_collaborators
        [([''a''], \<lparr>project_path = [''a''], start_year = 2000, end_year = 2020\<rparr>)] None))
     \<lparr>config_path = [''walltowall.json''], project_paths = [[''a'']],
      output_path = [''out''], include_index_layer = False\<rparr>
     ([], [])
   = (None,
      [[''out'', ''layers'', ''merged''], [''out'', ''input_database''],
       [''out'', ''layers'', ''tiled''], [''out'', ''gcbm_project'']],
      [(MergeCall 1 2000 6144, True), (TileCall False, True), (PatchCall, True),
       (ConfigureCall 2000 2020, True)])"
  by (simp add: merge_def merge_body_def traced_def stub_collaborators_def py_min_def py_max_def)

end
